theory Spec2Isabelle
  imports Complex_Main "HOL-Library.AList"
begin

section \<open>Python values, errors and the external services\<close>

text \<open>
  The pipeline is Python. Exceptions are values of \<open>pyerr\<close>; a function that can let an
  exception escape returns \<open>pyerr + 'a\<close> (\<open>Inl\<close> is the raised exception). A function that
  catches everything it can raise returns a plain value.
\<close>

datatype pyerr =
    KeyError string
  | IndexError
  | TypeError
  | AttributeError
  | ZeroDivisionError

text \<open>Sequencing: the first exception raised ends the computation.\<close>

definition py_bind :: "pyerr + 'a \<Rightarrow> ('a \<Rightarrow> pyerr + 'b) \<Rightarrow> pyerr + 'b" where
  "py_bind m f = (case m of Inl e \<Rightarrow> Inl e | Inr x \<Rightarrow> f x)"

text \<open>
  A Python float is NaN, an infinity or a finite rational. Python compares an int with a
  float by exact value, so the finite case carries the exact value of the float.
\<close>

datatype pyfloat = Finite rat | PosInf | NegInf | NaN

text \<open>The values \<open>json.loads\<close> can produce. A dict is an association list.\<close>

datatype json =
    JNull
  | JBool bool
  | JInt int
  | JFloat pyfloat
  | JStr string
  | JArr "json list"
  | JObj "(string \<times> json) list"

type_synonym dict = "(string \<times> json) list"

text \<open>\<open>d.get(k, default)\<close>, \<open>d[k]\<close> (raises KeyError) and \<open>d[k] = v\<close>.\<close>

definition dict_get :: "dict \<Rightarrow> string \<Rightarrow> json \<Rightarrow> json" where
  "dict_get d k dflt = (case map_of d k of None \<Rightarrow> dflt | Some v \<Rightarrow> v)"

definition dict_item :: "dict \<Rightarrow> string \<Rightarrow> pyerr + json" where
  "dict_item d k = (case map_of d k of None \<Rightarrow> Inl (KeyError k) | Some v \<Rightarrow> Inr v)"

definition dict_set :: "dict \<Rightarrow> string \<Rightarrow> json \<Rightarrow> dict" where
  "dict_set d k v = AList.update k v d"

text \<open>
  \<open>x >= k\<close> for an int literal \<open>k\<close>: defined on numbers (a bool is the int 0 or 1),
  TypeError on None, str, list and dict.
\<close>

fun py_ge_int :: "json \<Rightarrow> int \<Rightarrow> pyerr + bool" where
  "py_ge_int (JInt n) k = Inr (k \<le> n)"
| "py_ge_int (JBool b) k = Inr (k \<le> (if b then 1 else 0))"
| "py_ge_int (JFloat (Finite q)) k = Inr (of_int k \<le> q)"
| "py_ge_int (JFloat PosInf) k = Inr True"
| "py_ge_int (JFloat NegInf) k = Inr False"
| "py_ge_int (JFloat NaN) k = Inr False"
| "py_ge_int JNull k = Inl TypeError"
| "py_ge_int (JStr s) k = Inl TypeError"
| "py_ge_int (JArr xs) k = Inl TypeError"
| "py_ge_int (JObj d) k = Inl TypeError"

text \<open>Truthiness, as \<open>if x:\<close> tests it.\<close>

fun py_truthy :: "json \<Rightarrow> bool" where
  "py_truthy JNull = False"
| "py_truthy (JBool b) = b"
| "py_truthy (JInt n) = (n \<noteq> 0)"
| "py_truthy (JFloat (Finite q)) = (q \<noteq> 0)"
| "py_truthy (JFloat f) = True"
| "py_truthy (JStr s) = (s \<noteq> [])"
| "py_truthy (JArr xs) = (xs \<noteq> [])"
| "py_truthy (JObj d) = (d \<noteq> [])"

text \<open>
  The text-completion service is external. One call
  \<open>client.messages.create(...)\<close> followed by \<open>response.content[0].text\<close> either raises
  or yields a text; the model takes that outcome as an argument of the stage, so a theorem
  about every outcome is a theorem about every service. The prompt only feeds the service.
\<close>

datatype completion = Raised | Returned string

text \<open>
  \<open>json.loads\<close> is library code, taken as a parameter: it parses, raises JSONDecodeError
  (with its message, \<open>str(e)\<close>) or raises something else (RecursionError, ValueError).
\<close>

datatype loads_result = Parsed json | JSONDecodeError string | LoadsRaised

subsection \<open>Text operations\<close>

text \<open>
  Texts are lists of 8-bit characters. \<open>str.strip()\<close> removes the characters for which
  \<open>str.isspace\<close> holds from both ends; below code point 256 these are 9-13, 28-32, 133
  and 160.
\<close>

definition is_space :: "char \<Rightarrow> bool" where
  "is_space c = ((of_char c :: nat) \<in> set [9, 10, 11, 12, 13, 28, 29, 30, 31, 32, 133, 160])"

definition lstrip :: "string \<Rightarrow> string" where
  "lstrip s = dropWhile is_space s"

definition rstrip :: "string \<Rightarrow> string" where
  "rstrip s = rev (dropWhile is_space (rev s))"

definition strip :: "string \<Rightarrow> string" where
  "strip s = rstrip (lstrip s)"

definition startswith :: "string \<Rightarrow> string \<Rightarrow> bool" where
  "startswith s p = (take (length p) s = p)"

text \<open>
  \<open>s.split(sep)\<close> for a non-empty separator: scan from the left, cut at each
  occurrence, continue after it. \<open>acc\<close> is the current piece, reversed.
\<close>

fun split_aux :: "string \<Rightarrow> string \<Rightarrow> string \<Rightarrow> string list" where
  "split_aux sep acc [] = [rev acc]"
| "split_aux sep acc (c # cs) =
     (if startswith (c # cs) sep
      then rev acc # split_aux sep [] (drop (length sep - 1) cs)
      else split_aux sep (c # acc) cs)"

definition split :: "string \<Rightarrow> string \<Rightarrow> string list" where
  "split s sep = split_aux sep [] s"

definition fence :: string where
  "fence = [CHR 0x60, CHR 0x60, CHR 0x60]"

text \<open>\<open>sub in s\<close>: \<open>sub\<close> occurs in \<open>s\<close> at some position.\<close>

fun contains :: "string \<Rightarrow> string \<Rightarrow> bool" where
  "contains [] sub = (sub = [])"
| "contains (c # cs) sub = (startswith (c # cs) sub \<or> contains cs sub)"

section \<open>triage\_engine.py\<close>

record ticket =
  ticket_id :: string
  customer_name :: string
  subject :: string
  description :: string
  channel :: string
  mrr :: int
  timestamp :: string
  actual_priority :: "string option"

record agent =
  name :: string
  agent_description :: string
  specialties :: "string list"

text \<open>
  \<open>classify_priority(ticket)\<close>. The body of the \<open>try\<close> strips the answer and validates
  it; the \<open>except\<close> branch returns \<open>ticket.get('actual_priority', 'P2')\<close>.
\<close>

definition classify_priority :: "ticket \<Rightarrow> completion \<Rightarrow> string" where
  "classify_priority t call =
     (case call of
        Returned txt \<Rightarrow>
          (let priority = strip txt in
           if priority \<notin> set [''P0'', ''P1'', ''P2'', ''P3''] then ''P2'' else priority)
      | Raised \<Rightarrow>
          (case actual_priority t of None \<Rightarrow> ''P2'' | Some p \<Rightarrow> p))"

text \<open>\<open>route_to_agent(ticket, agents)\<close>.\<close>

definition route_to_agent :: "ticket \<Rightarrow> agent list \<Rightarrow> completion \<Rightarrow> string" where
  "route_to_agent t agents call =
     (case call of
        Returned txt \<Rightarrow>
          (let agent_name = strip txt;
               valid_agents = map name agents in
           if agent_name \<notin> set valid_agents then ''Integrations & API Team'' else agent_name)
      | Raised \<Rightarrow> ''Integrations & API Team'')"

section \<open>guardian.py\<close>

text \<open>
  The fence-stripping step, written out identically in \<open>analyze_churn_risk\<close> and in
  \<open>detect_business_intent\<close>: strip the text; if it starts with three backticks, take
  piece 1 of its split at three backticks and drop a leading \<open>json\<close>; strip again.
  Index 1 of the split raises IndexError when the split has one piece.
\<close>

definition strip_code_fence :: "string \<Rightarrow> pyerr + string" where
  "strip_code_fence txt =
     (let result_text = strip txt in
      if startswith result_text fence then
        (case split result_text fence of
           p0 # p1 # ps \<Rightarrow>
             Inr (strip (if startswith p1 ''json'' then drop 4 p1 else p1))
         | _ \<Rightarrow> Inl IndexError)
      else Inr (strip result_text))"

text \<open>The dict of the outer \<open>except Exception\<close> branch.\<close>

definition guardian_failed :: dict where
  "guardian_failed =
     [(''risk_score'', JInt 0),
      (''is_high_risk'', JBool False),
      (''sentiment'', JStr ''neutral''),
      (''evidence'', JStr []),
      (''reasoning'', JStr ''Analysis failed'')]"

text \<open>The dict of the \<open>except json.JSONDecodeError as e\<close> branch; \<open>msg\<close> is \<open>str(e)\<close>.\<close>

definition guardian_parse_fallback :: "string \<Rightarrow> dict" where
  "guardian_parse_fallback msg =
     [(''risk_score'', JInt 5),
      (''is_high_risk'', JBool False),
      (''sentiment'', JStr ''neutral''),
      (''evidence'', JStr []),
      (''reasoning'', JStr (''JSON parse error: '' @ msg))]"

text \<open>
  \<open>analyze_churn_risk(ticket_text, customer_mrr, ticket_priority)\<close>. The three arguments
  only feed the prompt. Everything after the service call is inside the outer \<open>try\<close>:
  an IndexError of the fence step, a non-dict JSON value (\<open>result.get\<close> raises
  AttributeError), a risk score that does not compare with 7 (TypeError) and any other
  exception of \<open>json.loads\<close> all end in \<open>guardian_failed\<close>.
\<close>

definition analyze_churn_risk ::
  "(string \<Rightarrow> loads_result) \<Rightarrow> completion \<Rightarrow> string \<Rightarrow> int \<Rightarrow> string \<Rightarrow> dict" where
  "analyze_churn_risk loads call ticket_text customer_mrr ticket_priority =
     (case call of
        Raised \<Rightarrow> guardian_failed
      | Returned txt \<Rightarrow>
          (case strip_code_fence txt of
             Inl e \<Rightarrow> guardian_failed
           | Inr result_text \<Rightarrow>
               (case loads result_text of
                  JSONDecodeError msg \<Rightarrow> guardian_parse_fallback msg
                | LoadsRaised \<Rightarrow> guardian_failed
                | Parsed v \<Rightarrow>
                    (case v of
                       JObj result \<Rightarrow>
                         (case py_ge_int (dict_get result ''risk_score'' (JInt 0)) 7 of
                            Inl e \<Rightarrow> guardian_failed
                          | Inr b \<Rightarrow> dict_set result ''is_high_risk'' (JBool b))
                     | _ \<Rightarrow> guardian_failed))))"

text \<open>
  The delivery service is external: \<open>Mail(...)\<close> and \<open>sendgrid_client.send(message)\<close>
  either raise or yield a response with a status code.
\<close>

datatype send_outcome = SendRaised | Status int

text \<open>
  The subject and the HTML body of the Guardian mail are f-strings built before the
  \<open>try\<close>. Only the delivery service reads the mail, so the model keeps the values the
  template interpolates, in the template's order, and the exceptions the interpolation
  raises: \<open>guardian_result[k]\<close> raises KeyError, \<open>.title()\<close> raises AttributeError on a
  value that is not a str (the change of letter case is not modelled).
\<close>

definition py_title :: "json \<Rightarrow> pyerr + json" where
  "py_title v = (case v of JStr s \<Rightarrow> Inr (JStr s) | _ \<Rightarrow> Inl AttributeError)"

definition guardian_alert_body :: "ticket \<Rightarrow> dict \<Rightarrow> pyerr + json list" where
  "guardian_alert_body t guardian_result =
     py_bind (dict_item guardian_result ''risk_score'') (\<lambda>risk_score.
     py_bind (dict_item guardian_result ''sentiment'') (\<lambda>sentiment.
     py_bind (py_title sentiment) (\<lambda>sentiment_title.
     py_bind (dict_item guardian_result ''evidence'') (\<lambda>evidence.
     py_bind (dict_item guardian_result ''reasoning'') (\<lambda>reasoning.
       Inr [JStr (ticket_id t), JStr (customer_name t), JInt (mrr t), risk_score,
            sentiment_title, evidence, reasoning, JStr (subject t),
            JStr (description t)])))))"

text \<open>
  \<open>send_guardian_alert(ticket, guardian_result)\<close>; \<open>kam_email\<close> is
  \<open>os.environ.get("GUARDIAN_EMAIL")\<close>, and \<open>not kam_email\<close> holds for None and for
  the empty string.
\<close>

definition send_guardian_alert ::
  "string option \<Rightarrow> send_outcome \<Rightarrow> ticket \<Rightarrow> dict \<Rightarrow> pyerr + bool" where
  "send_guardian_alert kam_email send t guardian_result =
     (if kam_email = None \<or> kam_email = Some [] then Inr False
      else
        (case guardian_alert_body t guardian_result of
           Inl e \<Rightarrow> Inl e
         | Inr html_content \<Rightarrow>
             (case send of
                SendRaised \<Rightarrow> Inr False
              | Status status_code \<Rightarrow>
                  if status_code \<in> set [200, 202] then Inr True else Inr False)))"

section \<open>opportunity.py\<close>

definition opportunity_failed :: dict where
  "opportunity_failed =
     [(''has_business_intent'', JBool False),
      (''intent_type'', JNull),
      (''confidence'', JInt 0),
      (''evidence'', JStr []),
      (''reasoning'', JStr ''Analysis failed'')]"

definition opportunity_parse_fallback :: "string \<Rightarrow> dict" where
  "opportunity_parse_fallback msg =
     [(''has_business_intent'', JBool False),
      (''intent_type'', JNull),
      (''confidence'', JInt 0),
      (''evidence'', JStr []),
      (''reasoning'', JStr (''JSON parse error: '' @ msg))]"

text \<open>\<open>detect_business_intent(ticket_text)\<close>, built like \<open>analyze_churn_risk\<close>.\<close>

definition detect_business_intent ::
  "(string \<Rightarrow> loads_result) \<Rightarrow> completion \<Rightarrow> string \<Rightarrow> dict" where
  "detect_business_intent loads call ticket_text =
     (case call of
        Raised \<Rightarrow> opportunity_failed
      | Returned txt \<Rightarrow>
          (case strip_code_fence txt of
             Inl e \<Rightarrow> opportunity_failed
           | Inr result_text \<Rightarrow>
               (case loads result_text of
                  JSONDecodeError msg \<Rightarrow> opportunity_parse_fallback msg
                | LoadsRaised \<Rightarrow> opportunity_failed
                | Parsed v \<Rightarrow>
                    (case v of
                       JObj result \<Rightarrow>
                         (case py_ge_int (dict_get result ''confidence'' (JInt 0)) 6 of
                            Inl e \<Rightarrow> opportunity_failed
                          | Inr b \<Rightarrow> dict_set result ''has_business_intent'' (JBool b))
                     | _ \<Rightarrow> opportunity_failed))))"

text \<open>
  \<open>table.get(key, default)\<close> on a dict with str keys: a list or a dict as key is
  unhashable and raises TypeError; any other key that is not in the table gives the default.
\<close>

definition table_get :: "(string \<times> string) list \<Rightarrow> json \<Rightarrow> string \<Rightarrow> pyerr + string" where
  "table_get table key dflt =
     (case key of
        JStr s \<Rightarrow> Inr (case map_of table s of None \<Rightarrow> dflt | Some v \<Rightarrow> v)
      | JArr xs \<Rightarrow> Inl TypeError
      | JObj d \<Rightarrow> Inl TypeError
      | _ \<Rightarrow> Inr dflt)"

definition intent_type_display :: "(string \<times> string) list" where
  "intent_type_display =
     [(''pricing_request'', ''Pricing Inquiry''),
      (''upgrade'', ''Upgrade Interest''),
      (''expansion'', ''Capacity Expansion''),
      (''custom_service'', ''Custom Service Request'')]"

definition get_approach_recommendation :: "json \<Rightarrow> pyerr + string" where
  "get_approach_recommendation intent_type =
     table_get
       [(''pricing_request'',
           ''Provide detailed pricing breakdown, highlight ROI and value proposition''),
        (''upgrade'',
           ''Showcase enterprise features, offer demo of advanced capabilities, discuss migration path''),
        (''expansion'',
           ''Present volume discount options, discuss scalability roadmap, flexible payment terms''),
        (''custom_service'',
           ''Schedule technical consultation, gather detailed requirements, prepare custom proposal'')]
       intent_type ''Understand specific needs and provide tailored solution''"

text \<open>The Opportunity mail: the interpolated values and the exceptions of building it.\<close>

definition opportunity_alert_body :: "ticket \<Rightarrow> dict \<Rightarrow> pyerr + json list" where
  "opportunity_alert_body t opportunity_result =
     py_bind (table_get intent_type_display
                (dict_get opportunity_result ''intent_type'' JNull) ''Business Inquiry'')
       (\<lambda>intent_display.
     py_bind (dict_item opportunity_result ''confidence'') (\<lambda>confidence.
     py_bind (dict_item opportunity_result ''evidence'') (\<lambda>evidence.
     py_bind (dict_item opportunity_result ''reasoning'') (\<lambda>reasoning.
     py_bind (get_approach_recommendation (dict_get opportunity_result ''intent_type'' JNull))
       (\<lambda>approach.
       Inr [JStr (ticket_id t), JStr (customer_name t), JInt (mrr t), JStr intent_display,
            confidence, evidence, JStr (subject t), JStr (description t), reasoning,
            JStr approach])))))"

definition send_opportunity_alert ::
  "string option \<Rightarrow> send_outcome \<Rightarrow> ticket \<Rightarrow> dict \<Rightarrow> pyerr + bool" where
  "send_opportunity_alert sales_email send t opportunity_result =
     (if sales_email = None \<or> sales_email = Some [] then Inr False
      else
        (case opportunity_alert_body t opportunity_result of
           Inl e \<Rightarrow> Inl e
         | Inr html_content \<Rightarrow>
             (case send of
                SendRaised \<Rightarrow> Inr False
              | Status status_code \<Rightarrow>
                  if status_code \<in> set [200, 202] then Inr True else Inr False)))"

section \<open>response\_generator.py\<close>

text \<open>
  \<open>generate_draft_response(ticket, assigned_agent)\<close>. The knowledge base is read from
  files before the \<open>try\<close> and only feeds the prompt; reading it is taken to succeed.
  The service call is inside the \<open>try\<close>, and the \<open>except\<close> branch returns None.
\<close>

definition generate_draft_response :: "ticket \<Rightarrow> string \<Rightarrow> completion \<Rightarrow> string option" where
  "generate_draft_response t assigned_agent call =
     (case call of
        Returned txt \<Rightarrow> Some (strip txt)
      | Raised \<Rightarrow> None)"

section \<open>main.py\<close>

text \<open>
  The result dict of \<open>process_ticket\<close>. It copies seven ticket fields, then each stage
  adds its key. The key \<open>draft_response\<close> is only set for P2 and P3: \<open>None\<close> is the
  missing key, \<open>Some None\<close> the key with value None, \<open>Some (Some d)\<close> a draft.
\<close>

record triage_result =
  res_ticket_id :: string
  res_customer_name :: string
  res_subject :: string
  res_description :: string
  res_channel :: string
  res_mrr :: int
  res_timestamp :: string
  assigned_priority :: string
  assigned_agent :: string
  guardian :: dict
  opportunity :: dict
  draft_response :: "string option option"

text \<open>
  What the outside world does during one \<open>process_ticket\<close>: the parser, the outcome of
  each of the five service calls, the two environment variables and the outcome of each
  delivery.
\<close>

record world =
  json_loads :: "string \<Rightarrow> loads_result"
  priority_call :: completion
  route_call :: completion
  guardian_call :: completion
  opportunity_call :: completion
  draft_call :: completion
  env_GUARDIAN_EMAIL :: "string option"
  env_OPPORTUNITY_EMAIL :: "string option"
  guardian_send :: send_outcome
  opportunity_send :: send_outcome

text \<open>
  \<open>process_ticket(ticket, agents)\<close>. Nothing here is inside a \<open>try\<close>: the lookups
  \<open>guardian_result['is_high_risk']\<close>, \<open>guardian_result['risk_score']\<close> (in the log line),
  \<open>opportunity_result['has_business_intent']\<close>, \<open>opportunity_result['intent_type']\<close> (in
  the log line) and the two alert functions pass their exceptions on.
\<close>

definition process_ticket :: "world \<Rightarrow> ticket \<Rightarrow> agent list \<Rightarrow> pyerr + triage_result" where
  "process_ticket w t agents =
     (let priority = classify_priority t (priority_call w);
          agent_name = route_to_agent t agents (route_call w);
          guardian_result =
            analyze_churn_risk (json_loads w) (guardian_call w) (description t) (mrr t) priority
      in
      py_bind (dict_item guardian_result ''is_high_risk'') (\<lambda>is_high_risk.
      py_bind
        (if py_truthy is_high_risk then
           py_bind (dict_item guardian_result ''risk_score'') (\<lambda>risk_score.
           py_bind (send_guardian_alert (env_GUARDIAN_EMAIL w) (guardian_send w) t
                      guardian_result) (\<lambda>email_sent.
             Inr (dict_set guardian_result ''email_sent'' (JBool email_sent))))
         else Inr guardian_result) (\<lambda>guardian_final.
      let opportunity_result =
            detect_business_intent (json_loads w) (opportunity_call w) (description t)
      in
      py_bind (dict_item opportunity_result ''has_business_intent'') (\<lambda>has_business_intent.
      py_bind
        (if py_truthy has_business_intent then
           py_bind (dict_item opportunity_result ''intent_type'') (\<lambda>intent_type.
           py_bind (send_opportunity_alert (env_OPPORTUNITY_EMAIL w) (opportunity_send w) t
                      opportunity_result) (\<lambda>email_sent.
             Inr (dict_set opportunity_result ''email_sent'' (JBool email_sent))))
         else Inr opportunity_result) (\<lambda>opportunity_final.
      Inr \<lparr> res_ticket_id = ticket_id t,
            res_customer_name = customer_name t,
            res_subject = subject t,
            res_description = description t,
            res_channel = channel t,
            res_mrr = mrr t,
            res_timestamp = timestamp t,
            assigned_priority = priority,
            assigned_agent = agent_name,
            guardian = guardian_final,
            opportunity = opportunity_final,
            draft_response =
              (if priority \<in> set [''P2'', ''P3'']
               then Some (generate_draft_response t agent_name (draft_call w))
               else None) \<rparr>)))))"

text \<open>\<open>r.get('draft_response')\<close>: None for a missing key and for the value None.\<close>

definition get_draft_response :: "triage_result \<Rightarrow> string option" where
  "get_draft_response r = (case draft_response r of None \<Rightarrow> None | Some v \<Rightarrow> v)"

text \<open>
  \<open>a / total * 100\<close> on two lengths: true division raises ZeroDivisionError when the
  divisor is 0. The value is the exact quotient; the rounding of floats and the formatting
  to one or no decimal are not modelled.
\<close>

definition py_percent :: "nat \<Rightarrow> nat \<Rightarrow> pyerr + rat" where
  "py_percent a n_total =
     (if n_total = 0 then Inl ZeroDivisionError else Inr (of_nat a / of_nat n_total * 100))"

record metrics =
  total_tickets :: nat
  guardian_alerts :: nat
  opportunity_alerts :: nat
  auto_resolved :: nat
  auto_resolved_rate :: rat

text \<open>\<open>generate_metrics(results)\<close>.\<close>

definition generate_metrics :: "triage_result list \<Rightarrow> pyerr + metrics" where
  "generate_metrics results =
     (let n_total = length results;
          n_guardian = length (filter
            (\<lambda>r. py_truthy (dict_get (guardian r) ''is_high_risk'' (JBool False))) results);
          n_opportunity = length (filter
            (\<lambda>r. py_truthy (dict_get (opportunity r) ''has_business_intent'' (JBool False)))
            results);
          n_auto = length (filter (\<lambda>r. get_draft_response r \<noteq> None) results)
      in
      py_bind (py_percent n_auto n_total) (\<lambda>rate.
        Inr \<lparr> total_tickets = n_total,
              guardian_alerts = n_guardian,
              opportunity_alerts = n_opportunity,
              auto_resolved = n_auto,
              auto_resolved_rate = rate \<rparr>))"

section \<open>report\_builder.py\<close>

text \<open>A loop or comprehension whose body can raise: the first exception ends it.\<close>

fun py_map :: "('a \<Rightarrow> pyerr + 'b) \<Rightarrow> 'a list \<Rightarrow> pyerr + 'b list" where
  "py_map f [] = Inr []"
| "py_map f (x # xs) =
     py_bind (f x) (\<lambda>y. py_bind (py_map f xs) (\<lambda>ys. Inr (y # ys)))"

text \<open>\<open>str.lower()\<close> below code point 256: A-Z and the upper-case Latin-1 letters.\<close>

definition lower_char :: "char \<Rightarrow> char" where
  "lower_char c =
     (let n = (of_char c :: nat) in
      if (65 \<le> n \<and> n \<le> 90) \<or> (192 \<le> n \<and> n \<le> 214) \<or> (216 \<le> n \<and> n \<le> 222)
      then char_of (n + 32) else c)"

definition team_mapping :: "(string \<times> string) list" where
  "team_mapping =
     [(''Integrations & API Team'', ''integrations-api-team''),
      (''Data & Analytics Team'', ''data-analytics-team''),
      (''Compliance & Operations Team'', ''compliance-operations-team'')]"

text \<open>\<open>if ticket.get('draft_response')\<close>: a draft that is not the empty string.\<close>

definition has_draft :: "triage_result \<Rightarrow> bool" where
  "has_draft r = (case get_draft_response r of None \<Rightarrow> False | Some d \<Rightarrow> d \<noteq> [])"

text \<open>One round of the loop of \<open>generate_zendesk_api_calls\<close>: the appended record.\<close>

definition zendesk_call :: "triage_result \<Rightarrow> pyerr + json" where
  "zendesk_call r =
     (let action = (if has_draft r then ''solve'' else ''assign'');
          assigned_team =
            (case map_of team_mapping (assigned_agent r) of
               None \<Rightarrow> ''integrations-api-team'' | Some q \<Rightarrow> q);
          priority = map lower_char (assigned_priority r)
      in
      py_bind
        (if py_truthy (dict_get (guardian r) ''is_high_risk'' JNull) then
           py_bind (dict_item (guardian r) ''risk_score'') (\<lambda>risk_score.
             Inr ([JStr ''churn-risk''],
                  [JObj [(''id'', JInt 360001), (''value'', risk_score)]]))
         else Inr ([], [])) (\<lambda>(guardian_tags, guardian_fields).
      py_bind
        (if py_truthy (dict_get (opportunity r) ''has_business_intent'' JNull) then
           py_bind (dict_item (opportunity r) ''intent_type'') (\<lambda>intent_type.
             Inr ([JStr ''upsell-opportunity''],
                  [JObj [(''id'', JInt 360002), (''value'', intent_type)]]))
         else Inr ([], [])) (\<lambda>(opportunity_tags, opportunity_fields).
        Inr (JObj
          [(''ticket_id'', JStr (res_ticket_id r)),
           (''action'', JStr action),
           (''api_endpoint'',
              JStr (''PUT /api/v2/tickets/'' @ res_ticket_id r @ ''.json'')),
           (''api_payload'', JObj [(''ticket'', JObj
              ([(''id'', JStr (res_ticket_id r)),
                (''status'', JStr (if action = ''solve'' then ''solved'' else ''open'')),
                (''priority'', JStr priority),
                (''assignee'', JStr assigned_team),
                (''tags'', JArr ([JStr assigned_team, JStr priority]
                                  @ guardian_tags @ opportunity_tags)),
                (''custom_fields'', JArr (guardian_fields @ opportunity_fields))]
               @ (if action = ''solve''
                  then [(''comment'', JObj
                          [(''body'', (case get_draft_response r of
                                         None \<Rightarrow> JNull | Some d \<Rightarrow> JStr d)),
                           (''public'', JBool True)])]
                  else [])))])]))))"

definition generate_zendesk_api_calls :: "triage_result list \<Rightarrow> pyerr + json list" where
  "generate_zendesk_api_calls results = py_map zendesk_call results"

text \<open>The entries of the Guardian and Opportunity alert logs.\<close>

definition guardian_log_entry :: "triage_result \<Rightarrow> pyerr + json" where
  "guardian_log_entry r =
     py_bind (dict_item (guardian r) ''risk_score'') (\<lambda>risk_score.
     py_bind (dict_item (guardian r) ''evidence'') (\<lambda>evidence.
       Inr (JObj
         [(''ticket_id'', JStr (res_ticket_id r)),
          (''customer'', JStr (res_customer_name r)),
          (''risk_score'', risk_score),
          (''evidence'', evidence),
          (''email_sent'', dict_get (guardian r) ''email_sent'' (JBool False))])))"

definition opportunity_log_entry :: "triage_result \<Rightarrow> pyerr + json" where
  "opportunity_log_entry r =
     py_bind (dict_item (opportunity r) ''intent_type'') (\<lambda>intent_type.
     py_bind (dict_item (opportunity r) ''confidence'') (\<lambda>confidence.
     py_bind (dict_item (opportunity r) ''evidence'') (\<lambda>evidence.
       Inr (JObj
         [(''ticket_id'', JStr (res_ticket_id r)),
          (''customer'', JStr (res_customer_name r)),
          (''intent_type'', intent_type),
          (''confidence'', confidence),
          (''evidence'', evidence),
          (''email_sent'', dict_get (opportunity r) ''email_sent'' (JBool False))]))))"

text \<open>
  The cards of \<open>generate_guardian_section\<close> and \<open>generate_opportunity_section\<close>: the
  values each card interpolates and the exceptions of reading them. On a value that is
  not a str, \<open>.replace('_', ' ')\<close> raises AttributeError; the letter case of \<open>.title()\<close>
  is not modelled.
\<close>

definition guardian_card :: "triage_result \<Rightarrow> pyerr + json list" where
  "guardian_card r =
     py_bind (dict_item (guardian r) ''risk_score'') (\<lambda>risk_score.
     py_bind (dict_item (guardian r) ''evidence'') (\<lambda>evidence.
       Inr [JStr (res_ticket_id r), JStr (res_customer_name r), JInt (res_mrr r),
            risk_score, evidence]))"

definition intent_title :: "json \<Rightarrow> pyerr + json" where
  "intent_title v =
     (case v of
        JStr s \<Rightarrow> Inr (JStr (map (\<lambda>c. if c = CHR ''_'' then CHR '' '' else c) s))
      | _ \<Rightarrow> Inl AttributeError)"

definition opportunity_card :: "triage_result \<Rightarrow> pyerr + json list" where
  "opportunity_card r =
     py_bind (dict_item (opportunity r) ''intent_type'') (\<lambda>intent_type.
     py_bind (intent_title intent_type) (\<lambda>intent_display.
     py_bind (dict_item (opportunity r) ''confidence'') (\<lambda>confidence.
     py_bind (dict_item (opportunity r) ''evidence'') (\<lambda>evidence.
       Inr [JStr (res_ticket_id r), JStr (res_customer_name r), JInt (res_mrr r),
            intent_display, confidence, evidence]))))"

text \<open>
  What the dashboard is rendered from. The rows of the ticket table and the preview of
  the first three calls are rendered without any lookup that can raise, so the model keeps
  the data behind them.
\<close>

record dashboard =
  dash_total :: nat
  dash_auto_resolved :: nat
  dash_auto_resolved_pct :: rat
  dash_guardian_alerts :: nat
  dash_guardian_pct :: rat
  dash_opportunity_alerts :: nat
  dash_opportunity_pct :: rat
  dash_guardian_cards :: "json list list"
  dash_opportunity_cards :: "json list list"
  dash_ticket_rows :: "triage_result list"
  dash_api_preview :: "json list"
  zendesk_calls_log :: "json list"
  guardian_alerts_log :: "json list"
  opportunity_alerts_log :: "json list"

text \<open>
  \<open>generate_html_dashboard(results, agents)\<close>, in the order the source evaluates: the
  three filtered lists, the call log, the two alert logs, then the template, whose
  interpolations are evaluated top to bottom: the three percentages, then the sections.
  Writing the files and opening the browser are taken to succeed.
\<close>

definition generate_html_dashboard ::
  "triage_result list \<Rightarrow> agent list \<Rightarrow> pyerr + dashboard" where
  "generate_html_dashboard results agents =
     (let n_total = length results;
          guardian_list = filter
            (\<lambda>r. py_truthy (dict_get (guardian r) ''is_high_risk'' (JBool False))) results;
          opportunity_list = filter
            (\<lambda>r. py_truthy (dict_get (opportunity r) ''has_business_intent'' (JBool False)))
            results;
          auto_list = filter has_draft results
      in
      py_bind (generate_zendesk_api_calls results) (\<lambda>zendesk_calls.
      py_bind (py_map guardian_log_entry guardian_list) (\<lambda>guardian_log.
      py_bind (py_map opportunity_log_entry opportunity_list) (\<lambda>opportunity_log.
      py_bind (py_percent (length auto_list) n_total) (\<lambda>auto_pct.
      py_bind (py_percent (length guardian_list) n_total) (\<lambda>guardian_pct.
      py_bind (py_percent (length opportunity_list) n_total) (\<lambda>opportunity_pct.
      py_bind (py_map guardian_card guardian_list) (\<lambda>guardian_cards.
      py_bind (py_map opportunity_card opportunity_list) (\<lambda>opportunity_cards.
        Inr \<lparr> dash_total = n_total,
              dash_auto_resolved = length auto_list,
              dash_auto_resolved_pct = auto_pct,
              dash_guardian_alerts = length guardian_list,
              dash_guardian_pct = guardian_pct,
              dash_opportunity_alerts = length opportunity_list,
              dash_opportunity_pct = opportunity_pct,
              dash_guardian_cards = guardian_cards,
              dash_opportunity_cards = opportunity_cards,
              dash_ticket_rows = results,
              dash_api_preview = take 3 zendesk_calls,
              zendesk_calls_log = zendesk_calls,
              guardian_alerts_log = guardian_log,
              opportunity_alerts_log = opportunity_log \<rparr>)))))))))"

section \<open>Sample inputs\<close>

definition sample_ticket :: ticket where
  "sample_ticket =
     \<lparr> ticket_id = ''TKT-001'',
       customer_name = ''Acme Corp'',
       subject = ''Export fails'',
       description = ''This is the 3rd time this fails, we are evaluating competitors'',
       channel = ''email'',
       mrr = 5000,
       timestamp = ''2025-01-15 09:30:00'',
       actual_priority = None \<rparr>"

definition sample_agents :: "agent list" where
  "sample_agents =
     [\<lparr> name = ''Integrations & API Team'', agent_description = ''APIs and webhooks'',
        specialties = [''api'', ''webhook''] \<rparr>,
      \<lparr> name = ''Data & Analytics Team'', agent_description = ''Reports and exports'',
        specialties = [''report'', ''export''] \<rparr>,
      \<lparr> name = ''Compliance & Operations Team'', agent_description = ''Billing and audits'',
        specialties = [''billing'', ''audit''] \<rparr>]"

text \<open>A world in which every service call raises and no alert address is configured.\<close>

definition silent_world :: world where
  "silent_world =
     \<lparr> json_loads = (\<lambda>s. JSONDecodeError ''Expecting value: line 1 column 1 (char 0)''),
       priority_call = Raised,
       route_call = Raised,
       guardian_call = Raised,
       opportunity_call = Raised,
       draft_call = Raised,
       env_GUARDIAN_EMAIL = None,
       env_OPPORTUNITY_EMAIL = None,
       guardian_send = SendRaised,
       opportunity_send = SendRaised \<rparr>"

text \<open>The same ticket with a supplied priority that is not one of the four levels.\<close>

definition urgent_ticket :: ticket where
  "urgent_ticket = sample_ticket \<lparr> actual_priority := Some ''Urgent'' \<rparr>"

text \<open>A configuration without the Integrations and API Team.\<close>

definition analytics_only :: "agent list" where
  "analytics_only =
     [\<lparr> name = ''Data & Analytics Team'', agent_description = ''Reports and exports'',
        specialties = [''report'', ''export''] \<rparr>]"

text \<open>The priority call answers P3 and the draft call answers with a text.\<close>

definition drafting_world :: world where
  "drafting_world = silent_world
     \<lparr> priority_call := Returned '' P3 '',
       draft_call := Returned ''Hello Acme Corp, please reset your password. Regards'' \<rparr>"

text \<open>
  The Guardian call answers with a JSON object that has a risk score and nothing else,
  the alert address is configured and the delivery service accepts the mail.
\<close>

definition alerting_world :: world where
  \<open>alerting_world = silent_world
     \<lparr> json_loads := (\<lambda>s. Parsed (JObj [(''risk_score'', JInt 9)])),
       guardian_call := Returned ''{"risk_score": 9}'',
       env_GUARDIAN_EMAIL := Some ''kam@example.com'',
       guardian_send := Status 202 \<rparr>\<close>

text \<open>
  A markdown code fence around a text \<open>j\<close>: the opening fence with an optional tag, white
  space (usually a line break), the text, white space, the closing fence.
\<close>

definition wrap_in_fence :: "string \<Rightarrow> string \<Rightarrow> string \<Rightarrow> string \<Rightarrow> string" where
  "wrap_in_fence tag before j after = fence @ tag @ before @ j @ after @ fence"

definition sample_json :: string where
  \<open>sample_json = ''{"risk_score": 8, "sentiment": "angry"}''\<close>

text \<open>
  A text of a thousand opening brackets: not JSON, and nested too deep for \<open>json.loads\<close>,
  which raises RecursionError on it and not JSONDecodeError.
\<close>

definition deeply_nested :: string where
  "deeply_nested = replicate 1000 (CHR ''['')"

text \<open>A JSON object whose confidence is a string.\<close>

definition confidence_as_text :: string where
  \<open>confidence_as_text = ''{"confidence": "high"}''\<close>

section \<open>Dictionaries and the fence step\<close>

lemma dict_item_set_same: "dict_item (dict_set d k v) k = Inr v"
  by (simp add: dict_item_def dict_set_def update_conv')

lemma dict_item_set_other: "k' \<noteq> k \<Longrightarrow> dict_item (dict_set d k v) k' = dict_item d k'"
  by (simp add: dict_item_def dict_set_def update_conv')

lemma dict_get_set_other: "k' \<noteq> k \<Longrightarrow> dict_get (dict_set d k v) k' dflt = dict_get d k' dflt"
  by (simp add: dict_get_def dict_set_def update_conv')

lemma dict_set_twice: "dict_set (dict_set d k v') k v = dict_set d k v"
  by (simp add: dict_set_def)

lemma split_aux_nonempty: "split_aux sep acc s \<noteq> []"
  by (induction sep acc s rule: split_aux.induct) auto

lemma startswith_fence_Cons: "startswith s fence \<Longrightarrow> \<exists>c cs. s = c # cs"
  by (cases s) (auto simp: startswith_def fence_def)

text \<open>
  The fence step never raises: a text that starts with three backticks splits into at
  least two pieces.
\<close>

lemma strip_code_fence_total: "\<exists>t. strip_code_fence raw = Inr t"
proof (cases "startswith (strip raw) fence")
  case True
  then obtain c cs where s: "strip raw = c # cs"
    using startswith_fence_Cons by blast
  obtain q qs where "split_aux fence [] (drop (length fence - 1) cs) = q # qs"
    using split_aux_nonempty by (cases "split_aux fence [] (drop (length fence - 1) cs)") auto
  then have "split (strip raw) fence = [] # q # qs"
    using True s by (simp add: split_def)
  then show ?thesis
    using True by (simp add: strip_code_fence_def Let_def)
next
  case False
  then show ?thesis by (simp add: strip_code_fence_def Let_def)
qed

section \<open>Churn-risk analysis\<close>

lemma guardian_failed_consistent:
  "dict_item guardian_failed ''is_high_risk'' = Inr (JBool False) \<and>
   py_ge_int (dict_get guardian_failed ''risk_score'' (JInt 0)) 7 = Inr False"
  by (simp add: guardian_failed_def dict_item_def dict_get_def)

lemma guardian_parse_fallback_consistent:
  "dict_item (guardian_parse_fallback msg) ''is_high_risk'' = Inr (JBool False) \<and>
   py_ge_int (dict_get (guardian_parse_fallback msg) ''risk_score'' (JInt 0)) 7 = Inr False"
  by (simp add: guardian_parse_fallback_def dict_item_def dict_get_def)

lemma guardian_recomputed_consistent:
  assumes "py_ge_int (dict_get d ''risk_score'' (JInt 0)) 7 = Inr b"
  shows "dict_item (dict_set d ''is_high_risk'' (JBool b)) ''is_high_risk'' = Inr (JBool b) \<and>
    py_ge_int (dict_get (dict_set d ''is_high_risk'' (JBool b)) ''risk_score'' (JInt 0)) 7
      = Inr b"
  using assms by (simp add: dict_item_set_same dict_get_set_other)

text \<open>The three shapes a Guardian result can have.\<close>

lemma analyze_churn_risk_cases:
  "analyze_churn_risk loads call tt m p = guardian_failed \<or>
   (\<exists>msg. analyze_churn_risk loads call tt m p = guardian_parse_fallback msg) \<or>
   (\<exists>d b. py_ge_int (dict_get d ''risk_score'' (JInt 0)) 7 = Inr b \<and>
          analyze_churn_risk loads call tt m p = dict_set d ''is_high_risk'' (JBool b))"
  by (auto simp: analyze_churn_risk_def
      split: completion.splits sum.splits loads_result.splits json.splits)

text \<open>
  A response that claims a high risk with score 3 is corrected, and so is one that denies
  it with score 9.
\<close>

lemma analyze_churn_risk_overrides_claim:
  "analyze_churn_risk
     (\<lambda>s. Parsed (JObj [(''risk_score'', JInt 3), (''is_high_risk'', JBool True)]))
     (Returned ''{}'') tt m p
     = [(''risk_score'', JInt 3), (''is_high_risk'', JBool False)] \<and>
   analyze_churn_risk
     (\<lambda>s. Parsed (JObj [(''risk_score'', JInt 9), (''is_high_risk'', JBool False)]))
     (Returned ''{}'') tt m p
     = [(''risk_score'', JInt 9), (''is_high_risk'', JBool True)]"
  by (simp add: analyze_churn_risk_def strip_code_fence_def strip_def lstrip_def rstrip_def
      is_space_def startswith_def fence_def dict_get_def dict_set_def)

text \<open>
  C2: for every raw response (any parser, any outcome of the call), the Guardian result
  has a boolean \<open>is_high_risk\<close> that equals \<open>risk_score >= 7\<close>, the score read with
  default 0; and the value the response itself gave for \<open>is_high_risk\<close> has no influence
  on the result.
\<close>

theorem analyze_churn_risk_recomputes_flag:
  "(\<exists>b. dict_item (analyze_churn_risk loads call tt m p) ''is_high_risk'' = Inr (JBool b) \<and>
        py_ge_int (dict_get (analyze_churn_risk loads call tt m p) ''risk_score'' (JInt 0)) 7
          = Inr b) \<and>
   analyze_churn_risk (\<lambda>s. Parsed (JObj (dict_set d ''is_high_risk'' claimed))) call tt m p
     = analyze_churn_risk (\<lambda>s. Parsed (JObj d)) call tt m p"
proof
  show "\<exists>b. dict_item (analyze_churn_risk loads call tt m p) ''is_high_risk'' = Inr (JBool b) \<and>
        py_ge_int (dict_get (analyze_churn_risk loads call tt m p) ''risk_score'' (JInt 0)) 7
          = Inr b"
    using analyze_churn_risk_cases [of loads call tt m p]
      guardian_failed_consistent guardian_parse_fallback_consistent
      guardian_recomputed_consistent by metis
  show "analyze_churn_risk (\<lambda>s. Parsed (JObj (dict_set d ''is_high_risk'' claimed))) call tt m p
     = analyze_churn_risk (\<lambda>s. Parsed (JObj d)) call tt m p"
    by (simp add: analyze_churn_risk_def dict_get_set_other dict_set_twice
        split: completion.splits sum.splits)
qed

text \<open>
  C5, as stated, fails: a text can be unparsable without \<open>json.loads\<close> raising
  JSONDecodeError. On a thousand opening brackets the parser raises RecursionError, the
  outer \<open>except\<close> catches it, and the Guardian result is the zeroed record with score 0,
  not the parse-failure record with score 5.
\<close>

theorem unparsable_text_without_decode_error:
  "analyze_churn_risk (\<lambda>s. LoadsRaised) (Returned deeply_nested) ''The export fails'' 5000 ''P1''
     = [(''risk_score'', JInt 0),
        (''is_high_risk'', JBool False),
        (''sentiment'', JStr ''neutral''),
        (''evidence'', JStr []),
        (''reasoning'', JStr ''Analysis failed'')] \<and>
   dict_item
     (analyze_churn_risk (\<lambda>s. LoadsRaised) (Returned deeply_nested) ''The export fails'' 5000
        ''P1'')
     ''risk_score'' \<noteq> Inr (JInt 5)"
  by (simp add: analyze_churn_risk_def guardian_failed_def dict_item_def split: sum.splits)

text \<open>
  C5, amended: when the call succeeded and \<open>json.loads\<close> raises JSONDecodeError on the
  text left by the fence step, the Guardian result is exactly the parse-failure record:
  score 5, not high risk, neutral sentiment, empty evidence, and a reasoning that ends
  with the parser's message. When \<open>json.loads\<close> raises any other exception on that text,
  the result is exactly the zeroed record with the reasoning Analysis failed.
\<close>

theorem guardian_parse_failure_fallback:
  assumes "strip_code_fence raw = Inr result_text"
  shows "(loads result_text = JSONDecodeError msg \<longrightarrow>
      analyze_churn_risk loads (Returned raw) tt m p =
        [(''risk_score'', JInt 5),
         (''is_high_risk'', JBool False),
         (''sentiment'', JStr ''neutral''),
         (''evidence'', JStr []),
         (''reasoning'', JStr (''JSON parse error: '' @ msg))]) \<and>
    (loads result_text = LoadsRaised \<longrightarrow>
      analyze_churn_risk loads (Returned raw) tt m p =
        [(''risk_score'', JInt 0),
         (''is_high_risk'', JBool False),
         (''sentiment'', JStr ''neutral''),
         (''evidence'', JStr []),
         (''reasoning'', JStr ''Analysis failed'')])"
  using assms
  by (simp add: analyze_churn_risk_def guardian_parse_fallback_def guardian_failed_def)

theorem guardian_parse_failure_fallback_witness:
  "strip_code_fence ''not json'' = Inr ''not json'' \<and>
   analyze_churn_risk (\<lambda>s. JSONDecodeError ''Expecting value: line 1 column 1 (char 0)'')
     (Returned ''not json'') ''The export fails'' 5000 ''P1'' =
     [(''risk_score'', JInt 5),
      (''is_high_risk'', JBool False),
      (''sentiment'', JStr ''neutral''),
      (''evidence'', JStr []),
      (''reasoning'', JStr ''JSON parse error: Expecting value: line 1 column 1 (char 0)'')] \<and>
   strip_code_fence deeply_nested = Inr deeply_nested \<and>
   analyze_churn_risk (\<lambda>s. LoadsRaised) (Returned deeply_nested) ''The export fails'' 5000
     ''P1'' =
     [(''risk_score'', JInt 0),
      (''is_high_risk'', JBool False),
      (''sentiment'', JStr ''neutral''),
      (''evidence'', JStr []),
      (''reasoning'', JStr ''Analysis failed'')]"
proof -
  have f: "strip_code_fence ''not json'' = Inr ''not json''"
    by (simp add: strip_code_fence_def strip_def lstrip_def rstrip_def is_space_def
        startswith_def fence_def)
  have g: "strip_code_fence deeply_nested = Inr deeply_nested"
    by (simp add: deeply_nested_def strip_code_fence_def strip_def lstrip_def rstrip_def
        startswith_def fence_def is_space_def numeral_3_eq_3)
  show ?thesis
    using f g
      guardian_parse_failure_fallback [OF f,
        of "\<lambda>s. JSONDecodeError ''Expecting value: line 1 column 1 (char 0)''"
        "''Expecting value: line 1 column 1 (char 0)''" "''The export fails''" 5000 "''P1''"]
      guardian_parse_failure_fallback [OF g, of "\<lambda>s. LoadsRaised" "[]"
        "''The export fails''" 5000 "''P1''"]
    by simp
qed

section \<open>Fallbacks when the service call raises\<close>

text \<open>
  C6: when the service call raises, the priority classifier returns the ticket's
  \<open>actual_priority\<close> if the ticket has one and P2 otherwise, the router returns
  Integrations and API Team, and the two analyzers return their zeroed records. Each stage
  returns a value: none of them passes the exception on.
\<close>

theorem classifier_exception_fallbacks:
  "classify_priority t Raised = (case actual_priority t of None \<Rightarrow> ''P2'' | Some q \<Rightarrow> q) \<and>
   route_to_agent t agents Raised = ''Integrations & API Team'' \<and>
   analyze_churn_risk loads Raised tt m p =
     [(''risk_score'', JInt 0),
      (''is_high_risk'', JBool False),
      (''sentiment'', JStr ''neutral''),
      (''evidence'', JStr []),
      (''reasoning'', JStr ''Analysis failed'')] \<and>
   detect_business_intent loads Raised tt =
     [(''has_business_intent'', JBool False),
      (''intent_type'', JNull),
      (''confidence'', JInt 0),
      (''evidence'', JStr []),
      (''reasoning'', JStr ''Analysis failed'')]"
  by (simp add: classify_priority_def route_to_agent_def analyze_churn_risk_def
      detect_business_intent_def guardian_failed_def opportunity_failed_def)

section \<open>Opportunity analysis\<close>

lemma opportunity_failed_consistent:
  "dict_item opportunity_failed ''has_business_intent'' = Inr (JBool False) \<and>
   dict_item opportunity_failed ''confidence'' = Inr (JInt 0) \<and>
   py_ge_int (dict_get opportunity_failed ''confidence'' (JInt 0)) 6 = Inr False"
  by (simp add: opportunity_failed_def dict_item_def dict_get_def)

lemma opportunity_parse_fallback_consistent:
  "dict_item (opportunity_parse_fallback msg) ''has_business_intent'' = Inr (JBool False) \<and>
   dict_item (opportunity_parse_fallback msg) ''confidence'' = Inr (JInt 0) \<and>
   py_ge_int (dict_get (opportunity_parse_fallback msg) ''confidence'' (JInt 0)) 6 = Inr False"
  by (simp add: opportunity_parse_fallback_def dict_item_def dict_get_def)

lemma opportunity_recomputed_consistent:
  assumes "py_ge_int (dict_get d ''confidence'' (JInt 0)) 6 = Inr b"
  shows "dict_item (dict_set d ''has_business_intent'' (JBool b)) ''has_business_intent''
      = Inr (JBool b) \<and>
    py_ge_int (dict_get (dict_set d ''has_business_intent'' (JBool b)) ''confidence'' (JInt 0)) 6
      = Inr b"
  using assms by (simp add: dict_item_set_same dict_get_set_other)

lemma detect_business_intent_cases:
  "detect_business_intent loads call tt = opportunity_failed \<or>
   (\<exists>msg. detect_business_intent loads call tt = opportunity_parse_fallback msg) \<or>
   (\<exists>d b. py_ge_int (dict_get d ''confidence'' (JInt 0)) 6 = Inr b \<and>
          detect_business_intent loads call tt = dict_set d ''has_business_intent'' (JBool b))"
  by (auto simp: detect_business_intent_def
      split: completion.splits sum.splits loads_result.splits json.splits)

text \<open>
  Whenever the result is not computed from a parsed object with a comparable confidence,
  it is one of the two fallback records.
\<close>

lemma detect_business_intent_exception_paths:
  assumes "\<not> (\<exists>raw result_text obj b. call = Returned raw \<and>
      strip_code_fence raw = Inr result_text \<and> loads result_text = Parsed (JObj obj) \<and>
      py_ge_int (dict_get obj ''confidence'' (JInt 0)) 6 = Inr b)"
  shows "detect_business_intent loads call tt = opportunity_failed \<or>
    (\<exists>msg. detect_business_intent loads call tt = opportunity_parse_fallback msg)"
  using assms
  by (auto simp: detect_business_intent_def
      split: completion.splits sum.splits loads_result.splits json.splits)

text \<open>
  C3: for every raw response, the Opportunity result has a boolean
  \<open>has_business_intent\<close> that equals \<open>confidence >= 6\<close>, the confidence read with default
  0, and the value the response itself gave for \<open>has_business_intent\<close> has no influence
  on the result. The result has confidence 0 and \<open>has_business_intent\<close> false on every
  other path: when the text does not parse, when the parser raises otherwise, when the
  parsed value is not an object (AttributeError), when the confidence does not compare
  with 6 (TypeError), and when the call raises; in short, whenever the result is not
  computed from a parsed object with a comparable confidence.
\<close>

theorem detect_business_intent_recomputes_flag:
  "(\<exists>b. dict_item (detect_business_intent loads call tt) ''has_business_intent''
          = Inr (JBool b) \<and>
        py_ge_int (dict_get (detect_business_intent loads call tt) ''confidence'' (JInt 0)) 6
          = Inr b) \<and>
   detect_business_intent (\<lambda>s. Parsed (JObj (dict_set d ''has_business_intent'' claimed))) call tt
     = detect_business_intent (\<lambda>s. Parsed (JObj d)) call tt \<and>
   (strip_code_fence raw = Inr result_text \<and>
    (loads result_text = JSONDecodeError msg \<or> loads result_text = LoadsRaised) \<longrightarrow>
      dict_item (detect_business_intent loads (Returned raw) tt) ''confidence'' = Inr (JInt 0) \<and>
      dict_item (detect_business_intent loads (Returned raw) tt) ''has_business_intent''
        = Inr (JBool False)) \<and>
   (strip_code_fence raw = Inr result_text \<and> loads result_text = Parsed v \<and>
    (\<forall>obj. v \<noteq> JObj obj) \<longrightarrow>
      dict_item (detect_business_intent loads (Returned raw) tt) ''confidence'' = Inr (JInt 0) \<and>
      dict_item (detect_business_intent loads (Returned raw) tt) ''has_business_intent''
        = Inr (JBool False)) \<and>
   (strip_code_fence raw = Inr result_text \<and> loads result_text = Parsed (JObj obj) \<and>
    py_ge_int (dict_get obj ''confidence'' (JInt 0)) 6 = Inl err \<longrightarrow>
      dict_item (detect_business_intent loads (Returned raw) tt) ''confidence'' = Inr (JInt 0) \<and>
      dict_item (detect_business_intent loads (Returned raw) tt) ''has_business_intent''
        = Inr (JBool False)) \<and>
   (\<not> (\<exists>raw result_text obj b. call = Returned raw \<and>
         strip_code_fence raw = Inr result_text \<and> loads result_text = Parsed (JObj obj) \<and>
         py_ge_int (dict_get obj ''confidence'' (JInt 0)) 6 = Inr b) \<longrightarrow>
      dict_item (detect_business_intent loads call tt) ''confidence'' = Inr (JInt 0) \<and>
      dict_item (detect_business_intent loads call tt) ''has_business_intent''
        = Inr (JBool False)) \<and>
   dict_item (detect_business_intent loads Raised tt) ''confidence'' = Inr (JInt 0) \<and>
   dict_item (detect_business_intent loads Raised tt) ''has_business_intent'' = Inr (JBool False)"
proof -
  have zero: "dict_item (detect_business_intent loads' call' tt) ''confidence'' = Inr (JInt 0) \<and>
      dict_item (detect_business_intent loads' call' tt) ''has_business_intent''
        = Inr (JBool False)"
    if "detect_business_intent loads' call' tt = opportunity_failed \<or>
      (\<exists>msg. detect_business_intent loads' call' tt = opportunity_parse_fallback msg)"
    for loads' call'
    using that opportunity_failed_consistent opportunity_parse_fallback_consistent by auto
  have flag: "\<exists>b. dict_item (detect_business_intent loads call tt) ''has_business_intent''
          = Inr (JBool b) \<and>
        py_ge_int (dict_get (detect_business_intent loads call tt) ''confidence'' (JInt 0)) 6
          = Inr b"
    using detect_business_intent_cases [of loads call tt]
      opportunity_failed_consistent opportunity_parse_fallback_consistent
      opportunity_recomputed_consistent by metis
  have indep: "detect_business_intent
        (\<lambda>s. Parsed (JObj (dict_set d ''has_business_intent'' claimed))) call tt
     = detect_business_intent (\<lambda>s. Parsed (JObj d)) call tt"
    by (simp add: detect_business_intent_def dict_get_set_other dict_set_twice
        split: completion.splits sum.splits)
  have parse: "dict_item (detect_business_intent loads (Returned raw) tt) ''confidence''
        = Inr (JInt 0) \<and>
      dict_item (detect_business_intent loads (Returned raw) tt) ''has_business_intent''
        = Inr (JBool False)"
    if "strip_code_fence raw = Inr result_text \<and>
      (loads result_text = JSONDecodeError msg \<or> loads result_text = LoadsRaised)"
    using that by (intro zero) (auto simp: detect_business_intent_def)
  have attr: "dict_item (detect_business_intent loads (Returned raw) tt) ''confidence''
        = Inr (JInt 0) \<and>
      dict_item (detect_business_intent loads (Returned raw) tt) ''has_business_intent''
        = Inr (JBool False)"
    if "strip_code_fence raw = Inr result_text \<and> loads result_text = Parsed v \<and>
      (\<forall>obj. v \<noteq> JObj obj)"
    using that by (intro zero) (auto simp: detect_business_intent_def split: json.splits)
  have type: "dict_item (detect_business_intent loads (Returned raw) tt) ''confidence''
        = Inr (JInt 0) \<and>
      dict_item (detect_business_intent loads (Returned raw) tt) ''has_business_intent''
        = Inr (JBool False)"
    if "strip_code_fence raw = Inr result_text \<and> loads result_text = Parsed (JObj obj) \<and>
      py_ge_int (dict_get obj ''confidence'' (JInt 0)) 6 = Inl err"
    using that by (intro zero) (auto simp: detect_business_intent_def)
  have other: "dict_item (detect_business_intent loads call tt) ''confidence'' = Inr (JInt 0) \<and>
      dict_item (detect_business_intent loads call tt) ''has_business_intent''
        = Inr (JBool False)"
    if "\<not> (\<exists>raw result_text obj b. call = Returned raw \<and>
         strip_code_fence raw = Inr result_text \<and> loads result_text = Parsed (JObj obj) \<and>
         py_ge_int (dict_get obj ''confidence'' (JInt 0)) 6 = Inr b)"
    using that by (intro zero detect_business_intent_exception_paths)
  have raised: "dict_item (detect_business_intent loads Raised tt) ''confidence''
        = Inr (JInt 0) \<and>
      dict_item (detect_business_intent loads Raised tt) ''has_business_intent''
        = Inr (JBool False)"
    by (intro zero) (simp add: detect_business_intent_def)
  from flag indep parse attr type other raised show ?thesis by blast
qed

theorem detect_business_intent_recomputes_flag_witness:
  "strip_code_fence ''not json'' = Inr ''not json'' \<and>
   dict_item (detect_business_intent
       (\<lambda>s. JSONDecodeError ''Expecting value: line 1 column 1 (char 0)'')
       (Returned ''not json'') ''Can we get a quote for 50 additional users?'')
     ''confidence'' = Inr (JInt 0) \<and>
   dict_item (detect_business_intent
       (\<lambda>s. JSONDecodeError ''Expecting value: line 1 column 1 (char 0)'')
       (Returned ''not json'') ''Can we get a quote for 50 additional users?'')
     ''has_business_intent'' = Inr (JBool False) \<and>
   strip_code_fence ''[10]'' = Inr ''[10]'' \<and>
   dict_item (detect_business_intent (\<lambda>s. Parsed (JArr [JInt 10])) (Returned ''[10]'')
       ''Can we get a quote for 50 additional users?'')
     ''confidence'' = Inr (JInt 0) \<and>
   dict_item (detect_business_intent (\<lambda>s. Parsed (JArr [JInt 10])) (Returned ''[10]'')
       ''Can we get a quote for 50 additional users?'')
     ''has_business_intent'' = Inr (JBool False) \<and>
   strip_code_fence confidence_as_text = Inr confidence_as_text \<and>
   py_ge_int (dict_get [(''confidence'', JStr ''high'')] ''confidence'' (JInt 0)) 6
     = Inl TypeError \<and>
   dict_item (detect_business_intent (\<lambda>s. Parsed (JObj [(''confidence'', JStr ''high'')]))
       (Returned confidence_as_text) ''Can we get a quote for 50 additional users?'')
     ''confidence'' = Inr (JInt 0) \<and>
   dict_item (detect_business_intent (\<lambda>s. Parsed (JObj [(''confidence'', JStr ''high'')]))
       (Returned confidence_as_text) ''Can we get a quote for 50 additional users?'')
     ''has_business_intent'' = Inr (JBool False)"
proof -
  have f: "strip_code_fence ''not json'' = Inr ''not json''"
    by (simp add: strip_code_fence_def strip_def lstrip_def rstrip_def is_space_def
        startswith_def fence_def)
  have g: "strip_code_fence ''[10]'' = Inr ''[10]''"
    by (simp add: strip_code_fence_def strip_def lstrip_def rstrip_def is_space_def
        startswith_def fence_def)
  have h: "strip_code_fence confidence_as_text = Inr confidence_as_text"
    by (simp add: confidence_as_text_def strip_code_fence_def strip_def lstrip_def rstrip_def
        is_space_def startswith_def fence_def)
  have k: "py_ge_int (dict_get [(''confidence'', JStr ''high'')] ''confidence'' (JInt 0)) 6
     = Inl TypeError"
    by (simp add: dict_get_def)
  show ?thesis
    using f g h k
      detect_business_intent_recomputes_flag
        [where raw = "''not json''" and result_text = "''not json''"
           and loads = "\<lambda>s. JSONDecodeError ''Expecting value: line 1 column 1 (char 0)''"
           and msg = "''Expecting value: line 1 column 1 (char 0)''"
           and tt = "''Can we get a quote for 50 additional users?''"]
      detect_business_intent_recomputes_flag
        [where raw = "''[10]''" and result_text = "''[10]''"
           and loads = "\<lambda>s. Parsed (JArr [JInt 10])" and v = "JArr [JInt 10]"
           and tt = "''Can we get a quote for 50 additional users?''"]
      detect_business_intent_recomputes_flag
        [where raw = confidence_as_text and result_text = confidence_as_text
           and loads = "\<lambda>s. Parsed (JObj [(''confidence'', JStr ''high'')])"
           and obj = "[(''confidence'', JStr ''high'')]" and err = TypeError
           and tt = "''Can we get a quote for 50 additional users?''"]
    by simp
qed

section \<open>Priority and routing\<close>

text \<open>When the service answers, the priority is one of the four levels.\<close>

lemma classify_priority_returned_valid:
  "classify_priority t (Returned txt) \<in> set [''P0'', ''P1'', ''P2'', ''P3'']"
  by (simp add: classify_priority_def Let_def)

text \<open>
  A priority outside the four levels can only be the supplied priority, returned when
  the call raised.
\<close>

lemma classify_priority_valid_or_supplied:
  "classify_priority t call \<in> set [''P0'', ''P1'', ''P2'', ''P3''] \<or>
   (call = Raised \<and> actual_priority t = Some (classify_priority t call))"
  by (cases call; cases "actual_priority t") (auto simp: classify_priority_def Let_def)

text \<open>
  C1: the claim asks for a priority among P0, P1, P2, P3 also when the call raises and the
  ticket supplies any string as \<open>actual_priority\<close>. The \<open>except\<close> branch returns that
  string as it is: for the supplied priority Urgent the classifier returns Urgent, and the
  result of \<open>process_ticket\<close> carries it as \<open>assigned_priority\<close>.
\<close>

theorem priority_fallback_not_validated:
  "classify_priority urgent_ticket Raised = ''Urgent'' \<and>
   ''Urgent'' \<notin> set [''P0'', ''P1'', ''P2'', ''P3''] \<and>
   map_sum id assigned_priority (process_ticket silent_world urgent_ticket sample_agents)
     = Inr ''Urgent''"
  by (simp add: classify_priority_def urgent_ticket_def sample_ticket_def silent_world_def
      process_ticket_def analyze_churn_risk_def detect_business_intent_def guardian_failed_def
      opportunity_failed_def dict_item_def py_bind_def route_to_agent_def Let_def)

text \<open>
  C7, as stated, fails: with a configuration that does not list the Integrations and API
  Team and an answer that is no configured name, the router returns a name that is neither
  in the configured set nor the first team of the configuration.
\<close>

theorem route_default_outside_configuration:
  "route_to_agent sample_ticket analytics_only (Returned ''Billing'')
     = ''Integrations & API Team'' \<and>
   route_to_agent sample_ticket analytics_only (Returned ''Billing'')
     \<notin> set (map name analytics_only) \<and>
   route_to_agent sample_ticket analytics_only (Returned ''Billing'')
     \<noteq> name (hd analytics_only)"
  by (simp add: route_to_agent_def analytics_only_def Let_def strip_def lstrip_def rstrip_def
      is_space_def)

text \<open>
  C7, amended: the router returns a configured name or the fixed name Integrations and API
  Team. It returns the stripped answer when that is exactly a configured name, and the
  fixed name when it is not and when the call raises.
\<close>

theorem route_to_agent_valid_or_default:
  "(route_to_agent t agents call \<in> set (map name agents) \<or>
    route_to_agent t agents call = ''Integrations & API Team'') \<and>
   (strip txt \<in> set (map name agents) \<longrightarrow>
      route_to_agent t agents (Returned txt) = strip txt) \<and>
   (strip txt \<notin> set (map name agents) \<longrightarrow>
      route_to_agent t agents (Returned txt) = ''Integrations & API Team'') \<and>
   route_to_agent t agents Raised = ''Integrations & API Team''"
  by (cases call) (auto simp: route_to_agent_def Let_def)

theorem route_to_agent_valid_or_default_witness:
  "strip '' Data & Analytics Team '' \<in> set (map name sample_agents) \<and>
   route_to_agent sample_ticket sample_agents (Returned '' Data & Analytics Team '')
     = ''Data & Analytics Team'' \<and>
   strip ''Billing'' \<notin> set (map name sample_agents) \<and>
   route_to_agent sample_ticket sample_agents (Returned ''Billing'')
     = ''Integrations & API Team''"
proof -
  have a: "strip '' Data & Analytics Team '' = ''Data & Analytics Team''"
    by (simp add: strip_def lstrip_def rstrip_def is_space_def)
  have b: "strip ''Billing'' = ''Billing''"
    by (simp add: strip_def lstrip_def rstrip_def is_space_def)
  have c: "strip '' Data & Analytics Team '' \<in> set (map name sample_agents)"
    by (simp add: a sample_agents_def)
  have d: "strip ''Billing'' \<notin> set (map name sample_agents)"
    by (simp add: b sample_agents_def)
  show ?thesis
    using a c d
      route_to_agent_valid_or_default
        [of sample_ticket sample_agents Raised "'' Data & Analytics Team ''"]
      route_to_agent_valid_or_default [of sample_ticket sample_agents Raised "''Billing''"]
    by simp
qed

section \<open>The draft response\<close>

lemma process_ticket_fields:
  assumes "process_ticket w t agents = Inr r"
  shows "assigned_priority r = classify_priority t (priority_call w) \<and>
    assigned_agent r = route_to_agent t agents (route_call w) \<and>
    draft_response r =
      (if assigned_priority r \<in> set [''P2'', ''P3'']
       then Some (generate_draft_response t (assigned_agent r) (draft_call w)) else None)"
  using assms unfolding process_ticket_def Let_def py_bind_def
  by (auto split: sum.splits if_splits)

text \<open>
  C8: a result of \<open>process_ticket\<close> has a draft only when its priority is P2 or P3; with
  priority P0 or P1 the key \<open>draft_response\<close> is missing; with priority P2 or P3 and a
  draft call that raises, the key is there with value None, which is what
  \<open>generate_draft_response\<close> returns instead of raising.
\<close>

theorem draft_only_for_low_priority:
  assumes "process_ticket w t agents = Inr r"
  shows "(draft_response r \<noteq> None \<longrightarrow> assigned_priority r \<in> {''P2'', ''P3''}) \<and>
    (get_draft_response r \<noteq> None \<longrightarrow> assigned_priority r \<in> {''P2'', ''P3''}) \<and>
    (assigned_priority r \<in> {''P0'', ''P1''} \<longrightarrow> draft_response r = None) \<and>
    (assigned_priority r \<in> {''P2'', ''P3''} \<and> draft_call w = Raised \<longrightarrow>
       draft_response r = Some None) \<and>
    generate_draft_response t (assigned_agent r) Raised = None"
  using process_ticket_fields [OF assms]
  by (auto simp: get_draft_response_def generate_draft_response_def split: if_splits)

theorem draft_only_for_low_priority_witness:
  "process_ticket drafting_world sample_ticket sample_agents =
     Inr \<lparr> res_ticket_id = ''TKT-001'',
           res_customer_name = ''Acme Corp'',
           res_subject = ''Export fails'',
           res_description = ''This is the 3rd time this fails, we are evaluating competitors'',
           res_channel = ''email'',
           res_mrr = 5000,
           res_timestamp = ''2025-01-15 09:30:00'',
           assigned_priority = ''P3'',
           assigned_agent = ''Integrations & API Team'',
           guardian = guardian_failed,
           opportunity = opportunity_failed,
           draft_response =
             Some (Some ''Hello Acme Corp, please reset your password. Regards'') \<rparr> \<and>
   ''P3'' \<in> {''P2'', ''P3''}"
proof -
  have run: "process_ticket drafting_world sample_ticket sample_agents =
     Inr \<lparr> res_ticket_id = ''TKT-001'',
           res_customer_name = ''Acme Corp'',
           res_subject = ''Export fails'',
           res_description = ''This is the 3rd time this fails, we are evaluating competitors'',
           res_channel = ''email'',
           res_mrr = 5000,
           res_timestamp = ''2025-01-15 09:30:00'',
           assigned_priority = ''P3'',
           assigned_agent = ''Integrations & API Team'',
           guardian = guardian_failed,
           opportunity = opportunity_failed,
           draft_response =
             Some (Some ''Hello Acme Corp, please reset your password. Regards'') \<rparr>"
    by (simp add: classify_priority_def drafting_world_def sample_ticket_def silent_world_def
        process_ticket_def analyze_churn_risk_def detect_business_intent_def
        guardian_failed_def opportunity_failed_def dict_item_def py_bind_def
        route_to_agent_def Let_def generate_draft_response_def strip_def lstrip_def
        rstrip_def is_space_def)
  show ?thesis
    using run draft_only_for_low_priority [OF run] by simp
qed

section \<open>Alert dispatch\<close>

text \<open>
  Once the body of the mail is built, the Guardian alert returns a boolean: True exactly
  when the delivery answers with status 200 or 202, False when it raises. Without a
  configured address it returns False before building anything.
\<close>

lemma send_guardian_alert_unconfigured:
  "send_guardian_alert None send t g = Inr False \<and>
   send_guardian_alert (Some []) send t g = Inr False"
  by (simp add: send_guardian_alert_def)

lemma send_guardian_alert_body_built:
  assumes "guardian_alert_body t g = Inr html" and "addr \<noteq> []"
  shows "send_guardian_alert (Some addr) SendRaised t g = Inr False \<and>
    send_guardian_alert (Some addr) (Status code) t g = Inr (code = 200 \<or> code = 202)"
  using assms by (simp add: send_guardian_alert_def)

lemma send_opportunity_alert_unconfigured:
  "send_opportunity_alert None send t g = Inr False \<and>
   send_opportunity_alert (Some []) send t g = Inr False"
  by (simp add: send_opportunity_alert_def)

lemma send_opportunity_alert_body_built:
  assumes "opportunity_alert_body t g = Inr html" and "addr \<noteq> []"
  shows "send_opportunity_alert (Some addr) SendRaised t g = Inr False \<and>
    send_opportunity_alert (Some addr) (Status code) t g = Inr (code = 200 \<or> code = 202)"
  using assms by (simp add: send_opportunity_alert_def)

text \<open>
  C9: the claim asks that the two alert functions never raise, for every ticket and
  analysis result. The mail body is built outside the \<open>try\<close>: with a configured address
  and an analysis result that lacks a key the template reads, the KeyError leaves the alert
  function, and it leaves \<open>process_ticket\<close> as well when the Guardian answer is a JSON
  object with nothing but a high risk score.
\<close>

theorem alert_body_error_escapes:
  "send_guardian_alert (Some ''kam@example.com'') (Status 202) sample_ticket
     [(''risk_score'', JInt 9), (''is_high_risk'', JBool True)]
     = Inl (KeyError ''sentiment'') \<and>
   send_opportunity_alert (Some ''sales@example.com'') (Status 202) sample_ticket
     [(''confidence'', JInt 8), (''intent_type'', JStr ''upgrade''),
      (''has_business_intent'', JBool True)]
     = Inl (KeyError ''evidence'') \<and>
   process_ticket alerting_world sample_ticket sample_agents = Inl (KeyError ''sentiment'')"
  by (simp add: send_guardian_alert_def send_opportunity_alert_def guardian_alert_body_def
      opportunity_alert_body_def dict_item_def dict_get_def py_bind_def table_get_def
      intent_type_display_def alerting_world_def silent_world_def sample_ticket_def
      process_ticket_def classify_priority_def route_to_agent_def analyze_churn_risk_def
      strip_code_fence_def strip_def lstrip_def rstrip_def is_space_def startswith_def
      fence_def dict_set_def Let_def)

section \<open>Metrics and dashboard on an empty run\<close>

lemma py_bind_Inl:
  "py_bind m f = Inl e \<Longrightarrow> m = Inl e \<or> (\<exists>x. m = Inr x \<and> f x = Inl e)"
  by (cases m) (simp_all add: py_bind_def)

lemma py_map_Inl: "py_map f xs = Inl e \<Longrightarrow> \<exists>x \<in> set xs. f x = Inl e"
proof (induction xs)
  case Nil
  then show ?case by simp
next
  case (Cons x xs)
  then show ?case
    by (cases "f x"; cases "py_map f xs") (auto simp: py_bind_def)
qed

lemma dict_item_not_zero_division: "dict_item d k \<noteq> Inl ZeroDivisionError"
  by (simp add: dict_item_def split: option.splits)

lemma zendesk_call_not_zero_division: "zendesk_call r \<noteq> Inl ZeroDivisionError"
  unfolding zendesk_call_def Let_def
  by (auto dest!: py_bind_Inl simp: dict_item_not_zero_division split: if_splits)

lemma guardian_log_entry_not_zero_division: "guardian_log_entry r \<noteq> Inl ZeroDivisionError"
  unfolding guardian_log_entry_def
  by (auto dest!: py_bind_Inl simp: dict_item_not_zero_division)

lemma opportunity_log_entry_not_zero_division:
  "opportunity_log_entry r \<noteq> Inl ZeroDivisionError"
  unfolding opportunity_log_entry_def
  by (auto dest!: py_bind_Inl simp: dict_item_not_zero_division)

lemma guardian_card_not_zero_division: "guardian_card r \<noteq> Inl ZeroDivisionError"
  unfolding guardian_card_def
  by (auto dest!: py_bind_Inl simp: dict_item_not_zero_division)

lemma opportunity_card_not_zero_division: "opportunity_card r \<noteq> Inl ZeroDivisionError"
  unfolding opportunity_card_def intent_title_def
  by (auto dest!: py_bind_Inl simp: dict_item_not_zero_division split: json.splits)

lemma py_percent_Inl: "(py_percent a n = Inl e) = (n = 0 \<and> e = ZeroDivisionError)"
  by (auto simp: py_percent_def)

lemma generate_metrics_Nil: "generate_metrics [] = Inl ZeroDivisionError"
  by (simp add: generate_metrics_def py_percent_def py_bind_def)

lemma generate_metrics_nonempty: "results \<noteq> [] \<Longrightarrow> \<exists>m. generate_metrics results = Inr m"
  by (simp add: generate_metrics_def py_percent_def py_bind_def Let_def)

lemma generate_html_dashboard_Nil: "generate_html_dashboard [] agents = Inl ZeroDivisionError"
  by (simp add: generate_html_dashboard_def generate_zendesk_api_calls_def py_percent_def
      py_bind_def)

lemma generate_html_dashboard_nonempty:
  assumes "results \<noteq> []"
  shows "generate_html_dashboard results agents \<noteq> Inl ZeroDivisionError"
proof
  assume "generate_html_dashboard results agents = Inl ZeroDivisionError"
  then show False
    using assms
    unfolding generate_html_dashboard_def Let_def generate_zendesk_api_calls_def
    by (auto dest!: py_bind_Inl py_map_Inl
        simp: py_percent_Inl zendesk_call_not_zero_division
          guardian_log_entry_not_zero_division opportunity_log_entry_not_zero_division
          guardian_card_not_zero_division opportunity_card_not_zero_division)
qed

text \<open>
  C10: on an empty list of results, \<open>generate_metrics\<close> and \<open>generate_html_dashboard\<close>
  both end in ZeroDivisionError and produce nothing. The list being non-empty is exactly
  the condition under which \<open>generate_metrics\<close> returns its summary, and exactly the
  condition under which the dashboard does not end in ZeroDivisionError.
\<close>

theorem empty_results_divide_by_zero:
  "generate_metrics [] = Inl ZeroDivisionError \<and>
   generate_html_dashboard [] agents = Inl ZeroDivisionError \<and>
   (\<exists>m. generate_metrics results = Inr m) = (results \<noteq> []) \<and>
   (generate_html_dashboard results agents = Inl ZeroDivisionError) = (results = [])"
  using generate_metrics_Nil generate_metrics_nonempty generate_html_dashboard_Nil
    generate_html_dashboard_nonempty [of results agents]
  by auto

section \<open>Fenced and unfenced responses\<close>

lemma startswith_iff: "startswith s p = (\<exists>r. s = p @ r)"
  unfolding startswith_def by (metis append_eq_conv_conj append_take_drop_id)

lemma startswith_append: "startswith s p \<Longrightarrow> startswith (s @ r) p"
  by (auto simp: startswith_iff)

lemma short_or_long:
  obtains "y = []" | a where "y = [a]" | a b where "y = [a, b]"
  | a b c r where "y = a # b # c # r"
  by (cases y; cases "tl y"; cases "tl (tl y)") auto

lemma not_is_space_backtick: "\<not> is_space (CHR 0x60)"
  by (simp add: is_space_def)

text \<open>
  An occurrence of the fence in \<open>a @ b\<close> lies in \<open>a\<close> or in \<open>b\<close>, unless \<open>a\<close> ends and
  \<open>b\<close> starts with a backtick.
\<close>

lemma startswith_fence_across:
  assumes "startswith (a @ b) fence" and "\<not> startswith a fence" and "a \<noteq> []"
  shows "b \<noteq> [] \<and> last a = CHR 0x60 \<and> hd b = CHR 0x60"
proof (cases a rule: short_or_long)
  case 1
  with assms show ?thesis by simp
next
  case (2 x)
  with assms show ?thesis by (cases b) (auto simp: startswith_def fence_def)
next
  case (3 x y)
  with assms show ?thesis by (cases b) (auto simp: startswith_def fence_def)
next
  case (4 x y z r)
  with assms show ?thesis by (auto simp: startswith_def fence_def)
qed

lemma contains_append_boundary:
  assumes "\<not> contains a fence" and "\<not> contains b fence"
    and "a = [] \<or> b = [] \<or> last a \<noteq> CHR 0x60 \<or> hd b \<noteq> CHR 0x60"
  shows "\<not> contains (a @ b) fence"
  using assms
proof (induction a)
  case Nil
  then show ?case by simp
next
  case (Cons c cs)
  have "\<not> startswith ((c # cs) @ b) fence"
    using startswith_fence_across [of "c # cs" b] Cons.prems by auto
  moreover have "\<not> contains (cs @ b) fence"
    using Cons.prems by (intro Cons.IH) (auto split: if_splits)
  ultimately show ?case by simp
qed

lemma no_backtick_no_fence: "CHR 0x60 \<notin> set s \<Longrightarrow> \<not> contains s fence"
  by (induction s) (auto simp: startswith_def fence_def)

lemma spaces_no_backtick: "\<forall>c \<in> set ws. is_space c \<Longrightarrow> CHR 0x60 \<notin> set ws"
  using not_is_space_backtick by blast

lemma split_aux_fence_at_end:
  assumes "\<not> contains y fence" and "y \<noteq> [] \<Longrightarrow> last y \<noteq> CHR 0x60"
  shows "split_aux fence acc (y @ fence) = [rev acc @ y, []]"
  using assms
proof (induction y arbitrary: acc)
  case Nil
  show ?case by (simp add: fence_def startswith_def)
next
  case (Cons c cs)
  have no: "\<not> startswith ((c # cs) @ fence) fence"
    using startswith_fence_across [of "c # cs" fence] Cons.prems by auto
  have "split_aux fence (c # acc) (cs @ fence) = [rev (c # acc) @ cs, []]"
    using Cons.prems by (intro Cons.IH) (auto split: if_splits)
  with no show ?case by simp
qed

lemma split_wrapped:
  assumes "\<not> contains y fence" and "y \<noteq> [] \<Longrightarrow> last y \<noteq> CHR 0x60"
  shows "split (fence @ y @ fence) fence = [[], y, []]"
proof -
  have "split (fence @ y @ fence) fence = [] # split_aux fence [] (y @ fence)"
    by (simp add: split_def fence_def startswith_def)
  then show ?thesis
    using split_aux_fence_at_end [OF assms, of "[]"] by simp
qed

subsection \<open>Stripping\<close>

lemma strip_Nil: "strip [] = []"
  by (simp add: strip_def lstrip_def rstrip_def)

lemma strip_unchanged:
  assumes "s \<noteq> []" and "\<not> is_space (hd s)" and "\<not> is_space (last s)"
  shows "strip s = s"
proof -
  have "lstrip s = s"
    using assms by (simp add: lstrip_def dropWhile_eq_self_iff)
  moreover have "dropWhile is_space (rev s) = rev s"
    using assms by (simp add: dropWhile_eq_self_iff hd_rev)
  ultimately show ?thesis by (simp add: strip_def rstrip_def)
qed

lemma rstrip_snoc_space: "is_space c \<Longrightarrow> rstrip (s @ [c]) = rstrip s"
  by (simp add: rstrip_def)

lemma strip_snoc_space:
  assumes "is_space c"
  shows "strip (s @ [c]) = strip s"
proof (cases "\<forall>x \<in> set s. is_space x")
  case True
  then have "lstrip (s @ [c]) = []" and "lstrip s = []"
    using assms by (simp_all add: lstrip_def)
  then show ?thesis by (simp add: strip_def)
next
  case False
  then obtain x where "x \<in> set s" and "\<not> is_space x" by blast
  then have "lstrip (s @ [c]) = lstrip s @ [c]"
    by (simp add: lstrip_def)
  then show ?thesis
    using assms by (simp add: strip_def rstrip_snoc_space)
qed

lemma strip_append_spaces: "\<forall>c \<in> set ws. is_space c \<Longrightarrow> strip (s @ ws) = strip s"
proof (induction ws rule: rev_induct)
  case Nil
  then show ?case by simp
next
  case (snoc c ws)
  have "strip (s @ ws @ [c]) = strip ((s @ ws) @ [c])" by simp
  also have "\<dots> = strip (s @ ws)"
    using snoc.prems by (intro strip_snoc_space) simp
  also have "\<dots> = strip s"
    using snoc by simp
  finally show ?case .
qed

lemma strip_spaces_append: "\<forall>c \<in> set ws. is_space c \<Longrightarrow> strip (ws @ s) = strip s"
  by (simp add: strip_def lstrip_def)

lemma strip_between_spaces:
  assumes "\<forall>c \<in> set before. is_space c" and "\<forall>c \<in> set after. is_space c"
  shows "strip (before @ j @ after) = strip j"
  using assms strip_spaces_append [of before "j @ after"] strip_append_spaces [of after j]
  by simp

text \<open>The stripped text is a piece of the text.\<close>

lemma rstrip_prefix: "\<exists>r. s = rstrip s @ r"
proof -
  have "rev s = takeWhile is_space (rev s) @ dropWhile is_space (rev s)" by simp
  then have "s = rev (dropWhile is_space (rev s)) @ rev (takeWhile is_space (rev s))"
    by (metis rev_append rev_rev_ident)
  then show ?thesis unfolding rstrip_def by blast
qed

lemma startswith_rstrip: "startswith (rstrip s) p \<Longrightarrow> startswith s p"
  by (metis rstrip_prefix startswith_append)

lemma startswith_lstrip_contains: "startswith (lstrip s) fence \<Longrightarrow> contains s fence"
proof (induction s)
  case Nil
  then show ?case by (simp add: lstrip_def startswith_def fence_def)
next
  case (Cons a s)
  then show ?case by (cases "is_space a") (auto simp: lstrip_def)
qed

lemma startswith_strip_contains: "startswith (strip s) fence \<Longrightarrow> contains s fence"
  unfolding strip_def using startswith_rstrip startswith_lstrip_contains by blast

lemma strip_strip: "strip (strip s) = strip s"
proof (cases "strip s = []")
  case True
  with strip_Nil show ?thesis by simp
next
  case False
  let ?t = "lstrip s"
  obtain r where r: "?t = strip s @ r"
    using rstrip_prefix [of ?t] by (auto simp: strip_def)
  have "?t \<noteq> []" using False by (auto simp: strip_def rstrip_def)
  then have "\<not> is_space (hd ?t)"
    unfolding lstrip_def by (rule hd_dropWhile)
  then have "\<not> is_space (hd (strip s))"
    using r False by (metis hd_append2)
  then have "lstrip (strip s) = strip s"
    by (simp add: lstrip_def dropWhile_eq_self_iff)
  moreover have "rstrip (strip s) = strip s"
    by (simp add: strip_def rstrip_def)
  ultimately show ?thesis by (simp add: strip_def [of "strip s"])
qed

subsection \<open>The two sides\<close>

lemma strip_code_fence_unfenced:
  assumes "\<not> contains j fence"
  shows "strip_code_fence j = Inr (strip j)"
  using assms startswith_strip_contains [of j]
  by (auto simp: strip_code_fence_def Let_def strip_strip)

text \<open>A text followed by spaces starts with \<open>json\<close> only if the text itself does.\<close>

lemma startswith_json_before_spaces:
  assumes "startswith (j @ ws) ''json''" and "\<forall>c \<in> set ws. is_space c"
  shows "startswith j ''json''"
proof (cases j rule: short_or_long)
  case 1
  with assms show ?thesis by (cases ws) (auto simp: startswith_def is_space_def)
next
  case (2 a)
  with assms show ?thesis by (cases ws) (auto simp: startswith_def is_space_def)
next
  case (3 a b)
  with assms show ?thesis by (cases ws) (auto simp: startswith_def is_space_def)
next
  case (4 a b c r)
  with assms show ?thesis
    by (cases r; cases ws) (auto simp: startswith_def is_space_def)
qed

lemma startswith_json_after_spaces:
  assumes "ws \<noteq> []" and "\<forall>c \<in> set ws. is_space c"
  shows "\<not> startswith (ws @ s) ''json''"
  using assms by (cases ws) (auto simp: startswith_def is_space_def)

lemma strip_code_fence_wrapped:
  assumes j: "\<not> contains j fence"
    and tag: "tag = [] \<or> tag = ''json''"
    and before: "\<forall>c \<in> set before. is_space c"
    and after: "\<forall>c \<in> set after. is_space c"
    and no_tag: "tag = ''json'' \<or> before \<noteq> [] \<or> \<not> startswith j ''json''"
    and closing: "after \<noteq> [] \<or> j = [] \<or> last j \<noteq> CHR 0x60"
  shows "strip_code_fence (wrap_in_fence tag before j after) = Inr (strip j)"
proof -
  let ?body = "before @ j @ after"
  let ?y = "tag @ ?body"
  have w: "wrap_in_fence tag before j after = fence @ ?y @ fence"
    by (simp add: wrap_in_fence_def)
  have strip_w: "strip (fence @ ?y @ fence) = fence @ ?y @ fence"
    by (rule strip_unchanged) (simp_all add: fence_def not_is_space_backtick)
  have starts: "startswith (fence @ ?y @ fence) fence"
    by (simp add: startswith_iff)
  have nb: "CHR 0x60 \<notin> set before" and na: "CHR 0x60 \<notin> set after"
    using before after spaces_no_backtick by blast+
  have bf: "\<not> contains before fence" and af: "\<not> contains after fence"
    using nb na by (simp_all add: no_backtick_no_fence)
  have "j = [] \<or> after = [] \<or> last j \<noteq> CHR 0x60 \<or> hd after \<noteq> CHR 0x60"
    using na by (cases after) auto
  with j af have ja: "\<not> contains (j @ after) fence"
    by (rule contains_append_boundary)
  have "before = [] \<or> j @ after = [] \<or> last before \<noteq> CHR 0x60 \<or>
      hd (j @ after) \<noteq> CHR 0x60"
    using nb by (cases before rule: rev_cases) auto
  with bf ja have body: "\<not> contains ?body fence"
    by (rule contains_append_boundary)
  have "\<not> contains ''json'' fence"
    by (simp add: startswith_def fence_def)
  then have "\<not> contains (''json'' @ ?body) fence"
    using body by (rule contains_append_boundary) simp
  with body tag have y: "\<not> contains ?y fence" by auto
  have last_y: "last ?y \<noteq> CHR 0x60" if "?y \<noteq> []"
  proof (cases "after = []")
    case False
    then show ?thesis using na by (metis last_appendR last_in_set append_assoc)
  next
    case True
    note a = this
    show ?thesis
    proof (cases "j = []")
      case False
      then show ?thesis using a closing by simp
    next
      case True
      note jn = this
      show ?thesis
      proof (cases "before = []")
        case False
        then show ?thesis using a jn nb by (metis append_Nil2 last_appendR last_in_set)
      next
        case True
        then show ?thesis using a jn tag that by auto
      qed
    qed
  qed
  have pieces: "split (fence @ ?y @ fence) fence = [[], ?y, []]"
    using y last_y by (rule split_wrapped)
  have "strip (if startswith ?y ''json'' then drop 4 ?y else ?y) = strip j"
  proof (cases "tag = ''json''")
    case True
    then show ?thesis
      using strip_between_spaces [OF before after] by (simp add: startswith_def)
  next
    case False
    then have t: "tag = []" using tag by simp
    have "\<not> startswith ?body ''json''"
    proof (cases "before = []")
      case True
      then show ?thesis
        using no_tag False after startswith_json_before_spaces [of j after] by auto
    next
      case False
      then show ?thesis using before by (rule startswith_json_after_spaces)
    qed
    then show ?thesis
      using t strip_between_spaces [OF before after] by simp
  qed
  then show ?thesis
    unfolding w strip_code_fence_def Let_def using strip_w starts pieces by simp
qed

text \<open>
  C4: let \<open>j\<close> be a text without three backticks in a row, wrapped in a code fence with
  the tag \<open>json\<close> or no tag and with white space (possibly none) on both sides. If
  nothing after an untagged opening fence reads as a tag (there is white space, or \<open>j\<close>
  does not begin with the letters \<open>json\<close>) and the closing fence can be told from the
  text (there is white space, or \<open>j\<close> does not end with a backtick), then the fence step
  leaves the same text for the fenced and the unfenced response, so any parser gives the
  same value and both analyzers return the same result. A JSON text never begins with
  \<open>json\<close> and never ends with a backtick, and a fence on lines of its own has the white
  space.
\<close>

theorem fenced_json_parses_identically:
  assumes "\<not> contains j fence"
    and "tag = [] \<or> tag = ''json''"
    and "\<forall>c \<in> set before. is_space c"
    and "\<forall>c \<in> set after. is_space c"
    and "tag = ''json'' \<or> before \<noteq> [] \<or> \<not> startswith j ''json''"
    and "after \<noteq> [] \<or> j = [] \<or> last j \<noteq> CHR 0x60"
  shows "strip_code_fence (wrap_in_fence tag before j after) = strip_code_fence j \<and>
    (case strip_code_fence (wrap_in_fence tag before j after) of
       Inl e \<Rightarrow> None | Inr result_text \<Rightarrow> Some (loads result_text)) =
    (case strip_code_fence j of
       Inl e \<Rightarrow> None | Inr result_text \<Rightarrow> Some (loads result_text)) \<and>
    analyze_churn_risk loads (Returned (wrap_in_fence tag before j after)) tt m p
      = analyze_churn_risk loads (Returned j) tt m p \<and>
    detect_business_intent loads (Returned (wrap_in_fence tag before j after)) tt
      = detect_business_intent loads (Returned j) tt"
  using strip_code_fence_wrapped [OF assms] strip_code_fence_unfenced [OF assms(1)]
  by (simp add: analyze_churn_risk_def detect_business_intent_def)


theorem fenced_json_parses_identically_witness:
  "\<not> contains sample_json fence \<and>
   strip_code_fence (wrap_in_fence ''json'' [CHR 0x0A] sample_json [CHR 0x0A])
     = Inr sample_json \<and>
   strip_code_fence sample_json = Inr sample_json \<and>
   strip_code_fence (wrap_in_fence [] [] sample_json []) = Inr sample_json"
proof -
  have a: "\<not> contains sample_json fence"
    by (simp add: sample_json_def startswith_def fence_def)
  have b: "\<forall>c \<in> set [CHR 0x0A]. is_space c"
    by (simp add: is_space_def)
  have c: "\<not> startswith sample_json ''json''"
    by (simp add: sample_json_def startswith_def)
  have d: "last sample_json \<noteq> CHR 0x60"
    by (simp add: sample_json_def)
  have e: "strip_code_fence sample_json = Inr sample_json"
    by (simp add: sample_json_def strip_code_fence_def strip_def lstrip_def rstrip_def
        is_space_def startswith_def fence_def)
  show ?thesis
    using a e
      fenced_json_parses_identically [where j = sample_json and tag = "''json''"
        and before = "[CHR 0x0A]" and after = "[CHR 0x0A]"]
      fenced_json_parses_identically [where j = sample_json and tag = "[]"
        and before = "[]" and after = "[]"]
      b c d
    by simp
qed

end
